theory Spec2Isabelle
  imports
    Main
    "HOL-Library.Char_ord"
    "HOL-Library.List_Lexorder"
    "HOL-Library.Multiset"
    "HOL-Library.Word"
begin

section \<open>The catalog store (data_models.py)\<close>

text \<open>
  The tables live in an SQLite database. A column declared \<^verbatim>\<open>Integer\<close> without
  \<^verbatim>\<open>nullable=False\<close> may hold NULL, an integer, or (SQLite applies type affinity, not
  type checking, and \<^verbatim>\<open>add_book\<close> hands it the form's string) a text that does not
  read as an integer. Primary keys are integers; \<^verbatim>\<open>String\<close> and \<^verbatim>\<open>Text\<close> columns hold
  text, or NULL where nullable. Text is the UTF-8 bytes the database holds: a Python
  string and its encoding determine each other, and the engine compares, folds and
  matches bytes. Keys are integers of the signed 64-bit range; the driver refuses to
  bind a Python integer outside it (see \<open>delete\<close>).
\<close>

datatype sqlval = Null | Integer int | Text string

record Author =
  author_id :: int
  name :: string
  birthdate :: "string option"
  date_of_death :: "string option"

record Book =
  book_id :: int
  isbn :: string
  title :: string
  publication_year :: sqlval
  author_id :: sqlval
  image_url :: "string option"

text \<open>Each table is the list of its rows, in insertion order.\<close>

record store =
  authors :: "Author list"
  books :: "Book list"

text \<open>
  A new row of a table with an integer primary key gets the largest key in use plus
  one, and 1 in an empty table.
\<close>

fun next_id :: "int list \<Rightarrow> int" where
  "next_id [] = 1"
| "next_id (i # ids) = fold max ids i + 1"

subsection \<open>SQL's three-valued logic\<close>

datatype sqlbool = SqlTrue | SqlFalse | SqlUnknown

fun sql_eq :: "sqlval \<Rightarrow> sqlval \<Rightarrow> sqlbool" where
  "sql_eq Null _ = SqlUnknown"
| "sql_eq _ Null = SqlUnknown"
| "sql_eq (Integer m) (Integer n) = (if m = n then SqlTrue else SqlFalse)"
| "sql_eq (Text s) (Text t) = (if s = t then SqlTrue else SqlFalse)"
| "sql_eq (Integer m) (Text t) = SqlFalse"
| "sql_eq (Text s) (Integer n) = SqlFalse"

fun sql_or :: "sqlbool \<Rightarrow> sqlbool \<Rightarrow> sqlbool" where
  "sql_or SqlTrue _ = SqlTrue"
| "sql_or _ SqlTrue = SqlTrue"
| "sql_or SqlFalse SqlFalse = SqlFalse"
| "sql_or _ _ = SqlUnknown"

fun sql_not :: "sqlbool \<Rightarrow> sqlbool" where
  "sql_not SqlTrue = SqlFalse"
| "sql_not SqlFalse = SqlTrue"
| "sql_not SqlUnknown = SqlUnknown"

text \<open>\<^verbatim>\<open>x IN (v1, ..., vn)\<close> is \<^verbatim>\<open>x = v1 OR ... OR x = vn\<close>, false for no values.\<close>

fun sql_in :: "sqlval \<Rightarrow> sqlval list \<Rightarrow> sqlbool" where
  "sql_in x [] = SqlFalse"
| "sql_in x (v # vs) = sql_or (sql_eq x v) (sql_in x vs)"

subsection \<open>LIKE\<close>

text \<open>
  SQLite's \<^verbatim>\<open>lower\<close> folds the case of the ASCII letters only and keeps every other
  byte.
\<close>

definition sql_lower :: "char \<Rightarrow> char" where
  "sql_lower c =
     (let n = (of_char c :: nat) in if 65 \<le> n \<and> n \<le> 90 then char_of (n + 32) else c)"

text \<open>
  \<^verbatim>\<open>LIKE\<close> reads both operands as C strings, up to the first NUL byte, and character
  by character: a byte from 192 on starts a character that goes on through the
  continuation bytes (128 to 191) behind it.
\<close>

definition c_string :: "string \<Rightarrow> string" where
  "c_string s = takeWhile (\<lambda>c. c \<noteq> CHR 0x00) s"

definition continuation :: "char \<Rightarrow> bool" where
  "continuation c = (let n = (of_char c :: nat) in 128 \<le> n \<and> n < 192)"

text \<open>What follows the character that begins with the byte \<open>c\<close>.\<close>

definition utf8_rest :: "char \<Rightarrow> string \<Rightarrow> string" where
  "utf8_rest c cs = (if 192 \<le> (of_char c :: nat) then dropWhile continuation cs else cs)"

text \<open>The first character of a Python string, as a string.\<close>

definition utf8_first :: "char \<Rightarrow> string \<Rightarrow> string" where
  "utf8_first c cs = (if 192 \<le> (of_char c :: nat) then c # takeWhile continuation cs else [c])"

text \<open>
  In a pattern \<^verbatim>\<open>%\<close> stands for any run of characters and \<^verbatim>\<open>_\<close> for any one character;
  there is no escape character unless the query names one. Other characters match
  themselves, the ASCII letters in either case.
\<close>

function like :: "string \<Rightarrow> string \<Rightarrow> bool" where
  "like [] [] = True"
| "like [] (c # cs) = False"
| "like (p # ps) [] = (p = CHR ''%'' \<and> like ps [])"
| "like (p # ps) (c # cs) =
     (if p = CHR ''%'' then like ps (c # cs) \<or> like (p # ps) (utf8_rest c cs)
      else if p = CHR ''_'' then like ps (utf8_rest c cs)
      else sql_lower p = sql_lower c \<and> like ps cs)"
  by pat_completeness auto
termination
  by (relation "measure (\<lambda>(ps, s). length ps + length s)")
     (auto simp: utf8_rest_def less_Suc_eq_le intro: le_SucI length_dropWhile_le)

text \<open>
  \<^verbatim>\<open>column.ilike(pattern)\<close> is sent to SQLite as
  \<^verbatim>\<open>lower(column) LIKE lower(pattern)\<close>. The engine refuses a pattern of more than
  50000 bytes (\<open>home\<close> has the check, since the refusal is an exception there).
\<close>

definition ilike :: "string \<Rightarrow> string \<Rightarrow> bool" where
  "ilike s pattern = like (c_string (map sql_lower pattern)) (c_string (map sql_lower s))"

section \<open>Python values and exceptions\<close>

text \<open>
  The values \<^verbatim>\<open>response.json()\<close> builds. A float is its 64 bits: the handlers never
  compute with one. A dict is its items; \<open>map_of\<close> reads a key.
\<close>

type_synonym py_float = "64 word"

datatype pyval =
    PNone
  | PBool bool
  | PInt int
  | PFloat py_float
  | PStr string
  | PList "pyval list"
  | PDict "(string \<times> pyval) list"

datatype exc =
    RequestException
  | JSONDecodeError
  | TypeError
  | KeyError
  | IndexError
  | AttributeError
  | InterfaceError
  | OverflowError
  | OperationalError

text \<open>\<^verbatim>\<open>sub in s\<close> on two strings.\<close>

fun starts_with :: "string \<Rightarrow> string \<Rightarrow> bool" where
  "starts_with s [] = True"
| "starts_with [] (p # ps) = False"
| "starts_with (c # cs) (p # ps) = (c = p \<and> starts_with cs ps)"

fun contains_str :: "string \<Rightarrow> string \<Rightarrow> bool" where
  "contains_str [] sub = (sub = [])"
| "contains_str (c # cs) sub = (starts_with (c # cs) sub \<or> contains_str cs sub)"

text \<open>\<^verbatim>\<open>k in obj\<close> for a string \<open>k\<close>.\<close>

fun py_in :: "string \<Rightarrow> pyval \<Rightarrow> exc + bool" where
  "py_in k (PDict kvs) = Inr (map_of kvs k \<noteq> None)"
| "py_in k (PList xs) = Inr (PStr k \<in> set xs)"
| "py_in k (PStr s) = Inr (contains_str s k)"
| "py_in k PNone = Inl TypeError"
| "py_in k (PBool b) = Inl TypeError"
| "py_in k (PInt i) = Inl TypeError"
| "py_in k (PFloat f) = Inl TypeError"

text \<open>\<^verbatim>\<open>obj[k]\<close> for a string \<open>k\<close>.\<close>

fun py_getitem :: "pyval \<Rightarrow> string \<Rightarrow> exc + pyval" where
  "py_getitem (PDict kvs) k = (case map_of kvs k of None \<Rightarrow> Inl KeyError | Some v \<Rightarrow> Inr v)"
| "py_getitem (PList xs) k = Inl TypeError"
| "py_getitem (PStr s) k = Inl TypeError"
| "py_getitem PNone k = Inl TypeError"
| "py_getitem (PBool b) k = Inl TypeError"
| "py_getitem (PInt i) k = Inl TypeError"
| "py_getitem (PFloat f) k = Inl TypeError"

text \<open>\<^verbatim>\<open>obj[0]\<close>. The keys of a parsed JSON object are strings, so 0 is never one.\<close>

fun py_getitem0 :: "pyval \<Rightarrow> exc + pyval" where
  "py_getitem0 (PList xs) = (case xs of [] \<Rightarrow> Inl IndexError | x # _ \<Rightarrow> Inr x)"
| "py_getitem0 (PStr s) =
     (case s of [] \<Rightarrow> Inl IndexError | c # cs \<Rightarrow> Inr (PStr (utf8_first c cs)))"
| "py_getitem0 (PDict kvs) = Inl KeyError"
| "py_getitem0 PNone = Inl TypeError"
| "py_getitem0 (PBool b) = Inl TypeError"
| "py_getitem0 (PInt i) = Inl TypeError"
| "py_getitem0 (PFloat f) = Inl TypeError"

text \<open>\<^verbatim>\<open>obj.get(k, default)\<close>: only a dict has the method.\<close>

fun py_get :: "pyval \<Rightarrow> string \<Rightarrow> pyval \<Rightarrow> exc + pyval" where
  "py_get (PDict kvs) k d = Inr (case map_of kvs k of None \<Rightarrow> d | Some v \<Rightarrow> v)"
| "py_get (PList xs) k d = Inl AttributeError"
| "py_get (PStr s) k d = Inl AttributeError"
| "py_get PNone k d = Inl AttributeError"
| "py_get (PBool b) k d = Inl AttributeError"
| "py_get (PInt i) k d = Inl AttributeError"
| "py_get (PFloat f) k d = Inl AttributeError"

section \<open>The handlers (app.py)\<close>

text \<open>
  A request is its method and, for POST, the submitted form: the fields in order, where
  \<^verbatim>\<open>request.form[k]\<close> is the first value under \<open>k\<close> and answers 400 when there is
  none.
\<close>

datatype request = GET | POST "(string \<times> string) list"

datatype response =
    Message string
  | Home "Book list"
  | AddAuthorForm
  | AddBookForm "Author list"
  | Redirect string
  | NotFound int
  | BadRequest
  | ServerError exc

text \<open>
  \<open>Message s\<close> is the body \<open>s\<close> with status 200, \<open>Home bs\<close> is
  \<^verbatim>\<open>render_template('home.html', books=bs)\<close>, and \<open>NotFound i\<close> is the pair
  \<^verbatim>\<open>(f"No book found with ID {i}", 404)\<close>.
\<close>

subsection \<open>add_author\<close>

definition add_author :: "request \<Rightarrow> store \<Rightarrow> response \<times> store" where
  "add_author req st =
     (case req of
        GET \<Rightarrow> (AddAuthorForm, st)
      | POST form \<Rightarrow>
          (case map_of form ''name'' of
             None \<Rightarrow> (BadRequest, st)
           | Some name' \<Rightarrow>
          (case map_of form ''birthdate'' of
             None \<Rightarrow> (BadRequest, st)
           | Some birthdate' \<Rightarrow>
          (case map_of form ''date_of_death'' of
             None \<Rightarrow> (BadRequest, st)
           | Some date_of_death' \<Rightarrow>
               (let new_author =
                      \<lparr>Author.author_id = next_id (map Author.author_id (authors st)),
                       name = name',
                       birthdate = Some birthdate',
                       date_of_death = Some date_of_death'\<rparr>
                in (Message ''New author successfully added to database'',
                    st\<lparr>authors := authors st @ [new_author]\<rparr>))))))"

subsection \<open>fetch_book_image\<close>

text \<open>
  What \<^verbatim>\<open>requests.get(url)\<close> followed by \<^verbatim>\<open>response.json()\<close> comes to: the request
  raised, the body did not parse, or the parsed body.
\<close>

datatype http_result = RequestFailed | NotJson | Json pyval

text \<open>
  The body of the \<^verbatim>\<open>try\<close>: an exception, no \<^verbatim>\<open>return\<close> reached (\<open>None\<close>), or
  the returned value.
\<close>

definition volumes_url :: "string \<Rightarrow> string \<Rightarrow> string" where
  "volumes_url title' isbn' =
     (let query = title' @ '' '' @ isbn'
      in ''https://www.googleapis.com/books/v1/volumes?q='' @ query)"

definition fetch_try :: "(string \<Rightarrow> http_result) \<Rightarrow> string \<Rightarrow> string \<Rightarrow> exc + pyval option" where
  "fetch_try get title' isbn' =
     (let url = volumes_url title' isbn'
      in case get url of
           RequestFailed \<Rightarrow> Inl RequestException
         | NotJson \<Rightarrow> Inl JSONDecodeError
         | Json data \<Rightarrow>
             (case py_in ''items'' data of
                Inl e \<Rightarrow> Inl e
              | Inr False \<Rightarrow> Inr None
              | Inr True \<Rightarrow>
                  (case py_getitem data ''items'' of
                     Inl e \<Rightarrow> Inl e
                   | Inr items \<Rightarrow>
                  (case py_getitem0 items of
                     Inl e \<Rightarrow> Inl e
                   | Inr item \<Rightarrow>
                  (case py_getitem item ''volumeInfo'' of
                     Inl e \<Rightarrow> Inl e
                   | Inr volume_info \<Rightarrow>
                  (case py_get volume_info ''imageLinks'' (PDict []) of
                     Inl e \<Rightarrow> Inl e
                   | Inr image_links \<Rightarrow>
                  (case py_get image_links ''thumbnail'' (PStr '''') of
                     Inl e \<Rightarrow> Inl e
                   | Inr thumbnail \<Rightarrow> Inr (Some thumbnail))))))))"

definition fetch_book_image :: "(string \<Rightarrow> http_result) \<Rightarrow> string \<Rightarrow> string \<Rightarrow> pyval" where
  "fetch_book_image get title' isbn' =
     (case fetch_try get title' isbn' of
        Inl e \<Rightarrow> PStr ''''
      | Inr None \<Rightarrow> PStr ''''
      | Inr (Some v) \<Rightarrow> v)"

subsection \<open>add_book\<close>

text \<open>
  What lies outside the repository: the book-metadata service, what an INTEGER column
  keeps of a text it is given, and what the driver and a TEXT column do with a bool or
  a number (kept as its text when it can be bound).
\<close>

record environment =
  requests_get :: "string \<Rightarrow> http_result"
  integer_affinity :: "string \<Rightarrow> sqlval"
  bind_other :: "pyval \<Rightarrow> exc + string option"

text \<open>
  Binding the \<^verbatim>\<open>image_url\<close> of the new row at the commit: a string is stored as it
  is, \<^verbatim>\<open>None\<close> as NULL, and the driver has no binding for a list or a dict: it raises
  (\<^verbatim>\<open>InterfaceError\<close>, \<^verbatim>\<open>ProgrammingError\<close> in later versions), nothing is
  stored and the request ends in a server error.
\<close>

definition bind_text :: "environment \<Rightarrow> pyval \<Rightarrow> exc + string option" where
  "bind_text env v =
     (case v of
        PStr s \<Rightarrow> Inr (Some s)
      | PNone \<Rightarrow> Inr None
      | PList xs \<Rightarrow> Inl InterfaceError
      | PDict kvs \<Rightarrow> Inl InterfaceError
      | _ \<Rightarrow> bind_other env v)"

definition add_book :: "environment \<Rightarrow> request \<Rightarrow> store \<Rightarrow> response \<times> store" where
  "add_book env req st =
     (case req of
        GET \<Rightarrow> (AddBookForm (authors st), st)
      | POST form \<Rightarrow>
          (case map_of form ''title'' of
             None \<Rightarrow> (BadRequest, st)
           | Some title' \<Rightarrow>
          (case map_of form ''isbn'' of
             None \<Rightarrow> (BadRequest, st)
           | Some isbn' \<Rightarrow>
          (case map_of form ''publication_year'' of
             None \<Rightarrow> (BadRequest, st)
           | Some publication_year' \<Rightarrow>
          (case map_of form ''author_id'' of
             None \<Rightarrow> (BadRequest, st)
           | Some author_id' \<Rightarrow>
               (let image_url' = fetch_book_image (requests_get env) title' isbn'
                in case bind_text env image_url' of
                     Inl e \<Rightarrow> (ServerError e, st)
                   | Inr stored_url \<Rightarrow>
                       (let new_book =
                              \<lparr>book_id = next_id (map book_id (books st)),
                               isbn = isbn',
                               title = title',
                               publication_year = integer_affinity env publication_year',
                               author_id = integer_affinity env author_id',
                               image_url = stored_url\<rparr>
                        in (Message ''New book successfully added to database'',
                            st\<lparr>books := books st @ [new_book]\<rparr>))))))))"

subsection \<open>home\<close>

text \<open>
  The filter is evaluated row by row: on the first row a pattern of more than 50000
  bytes raises \<^verbatim>\<open>OperationalError\<close>, which the handler does not catch; with no row
  there is nothing to evaluate.
\<close>

definition home :: "request \<Rightarrow> store \<Rightarrow> response \<times> store" where
  "home req st =
     (case req of
        GET \<Rightarrow> (Home (books st), st)
      | POST form \<Rightarrow>
          (case map_of form ''search'' of
             None \<Rightarrow> (BadRequest, st)
           | Some search \<Rightarrow>
               (let pattern = ''%'' @ search @ ''%''
                in if 50000 < length pattern \<and> books st \<noteq> []
                   then (ServerError OperationalError, st)
                   else
                     (let found = filter (\<lambda>b. ilike (title b) pattern) (books st)
                      in if length found = 0 then (Message ''No books found'', st)
                         else (Home found, st)))))"

subsection \<open>sort_by_title, sort_by_author\<close>

text \<open>
  \<^verbatim>\<open>ORDER BY\<close> on a text column compares byte by byte, a proper prefix first. Rows
  with equal keys are kept in table order.
\<close>

definition sort_by_title :: "store \<Rightarrow> response \<times> store" where
  "sort_by_title st = (Home (sort_key title (books st)), st)"

text \<open>
  \<^verbatim>\<open>Book.query.join(Author)\<close> is the inner join on the foreign key: one row for each
  book and each author whose key the book's \<^verbatim>\<open>author_id\<close> equals.
\<close>

definition join_author :: "Book list \<Rightarrow> Author list \<Rightarrow> (Book \<times> Author) list" where
  "join_author bs as =
     concat (map (\<lambda>b. map (Pair b)
       (filter (\<lambda>a. sql_eq (Book.author_id b) (Integer (Author.author_id a)) = SqlTrue) as)) bs)"

definition sort_by_author :: "store \<Rightarrow> response \<times> store" where
  "sort_by_author st =
     (Home (map fst (sort_key (\<lambda>r. name (snd r)) (join_author (books st) (authors st)))), st)"

subsection \<open>delete\<close>

text \<open>
  \<^verbatim>\<open>Book.query.get(book_id)\<close> binds the id, and the driver raises \<^verbatim>\<open>OverflowError\<close>
  for a Python integer outside the signed 64-bit range; the route takes any run of
  digits. No stored key is outside that range, so the check stands where it decides
  something: where no row has the id.
\<close>

definition in_int64 :: "int \<Rightarrow> bool" where
  "in_int64 i = (- (2 ^ 63) \<le> i \<and> i < 2 ^ 63)"

definition delete :: "int \<Rightarrow> store \<Rightarrow> response \<times> store" where
  "delete bid st =
     (case find (\<lambda>b. book_id b = bid) (books st) of
        Some book \<Rightarrow>
          (let st1 = st\<lparr>books := filter (\<lambda>b. book_id b \<noteq> bid) (books st)\<rparr>;
               authors_ids_with_books = remdups (map Book.author_id (books st1));
               st2 = st1\<lparr>authors :=
                       filter (\<lambda>a. sql_not (sql_in (Integer (Author.author_id a))
                                                authors_ids_with_books) \<noteq> SqlTrue)
                              (authors st1)\<rparr>
           in (Redirect ''/'', st2))
      | None \<Rightarrow>
          (if in_int64 bid then (NotFound bid, st) else (ServerError OverflowError, st)))"

section \<open>The specification's notions\<close>

text \<open>
  These follow the words of the specification, not the code; the theorems below compare
  the handlers with them.
\<close>

text \<open>A book references an author when its foreign key holds the author's key.\<close>

definition spec_references :: "Book \<Rightarrow> Author \<Rightarrow> bool" where
  "spec_references b a = (Book.author_id b = Integer (Author.author_id a))"

text \<open>
  The thumbnail of a response of the book-metadata service: the field
  \<^verbatim>\<open>thumbnail\<close> of the object \<^verbatim>\<open>imageLinks\<close> of the object \<^verbatim>\<open>volumeInfo\<close> of the first
  element of the array \<^verbatim>\<open>items\<close>, when all of them are there.
\<close>

fun spec_field :: "pyval \<Rightarrow> string \<Rightarrow> pyval option" where
  "spec_field (PDict kvs) k = map_of kvs k"
| "spec_field _ k = None"

fun spec_first :: "pyval \<Rightarrow> pyval option" where
  "spec_first (PList (x # xs)) = Some x"
| "spec_first _ = None"

definition spec_thumbnail :: "pyval \<Rightarrow> pyval option" where
  "spec_thumbnail data =
     (case spec_field data ''items'' of
        None \<Rightarrow> None
      | Some items \<Rightarrow>
     (case spec_first items of
        None \<Rightarrow> None
      | Some item \<Rightarrow>
     (case spec_field item ''volumeInfo'' of
        None \<Rightarrow> None
      | Some volume_info \<Rightarrow>
     (case spec_field volume_info ''imageLinks'' of
        None \<Rightarrow> None
      | Some image_links \<Rightarrow> spec_field image_links ''thumbnail''))))"

text \<open>
  A lookup fails by a network error, by a malformed response (a body that is not JSON,
  or one whose thumbnail is not a string), or by a response that misses a field on the
  way to the thumbnail: it succeeds only when it finds a thumbnail that is a string.
\<close>

fun spec_lookup_failed :: "http_result \<Rightarrow> bool" where
  "spec_lookup_failed RequestFailed = True"
| "spec_lookup_failed NotJson = True"
| "spec_lookup_failed (Json data) =
     (case spec_thumbnail data of Some (PStr s) \<Rightarrow> False | _ \<Rightarrow> True)"

section \<open>Notions for the general facts\<close>

text \<open>
  The lookups that \<open>fetch_book_image\<close> answers with the empty string: the request
  raised, the body was not JSON, or the body has no thumbnail.
\<close>

fun no_thumbnail :: "http_result \<Rightarrow> bool" where
  "no_thumbnail RequestFailed = True"
| "no_thumbnail NotJson = True"
| "no_thumbnail (Json data) = (spec_thumbnail data = None)"

text \<open>A search term that LIKE reads letter by letter: no wildcard and no NUL in it.\<close>

definition plain_term :: "string \<Rightarrow> bool" where
  "plain_term term' =
     (CHR ''%'' \<notin> set term' \<and> CHR ''_'' \<notin> set term' \<and> CHR 0x00 \<notin> set term')"

text \<open>A text of ASCII characters other than NUL.\<close>

definition ascii_text :: "string \<Rightarrow> bool" where
  "ascii_text s = list_all (\<lambda>c. c \<noteq> CHR 0x00 \<and> (of_char c :: nat) < 128) s"

section \<open>A small library\<close>

definition austen :: Author where
  "austen = \<lparr>Author.author_id = 1, name = ''Jane Austen'',
              birthdate = Some ''1775'', date_of_death = Some ''1817''\<rparr>"

definition bronte :: Author where
  "bronte = \<lparr>Author.author_id = 2, name = ''Charlotte Bronte'',
              birthdate = Some ''1816'', date_of_death = Some ''1855''\<rparr>"

definition emma :: Book where
  "emma = \<lparr>book_id = 1, isbn = ''123'', title = ''Emma'',
            publication_year = Integer 1815, author_id = Integer 1, image_url = Some ''''\<rparr>"

definition persuasion :: Book where
  "persuasion = \<lparr>book_id = 2, isbn = ''456'', title = ''Persuasion'',
            publication_year = Integer 1817, author_id = Integer 1, image_url = Some ''''\<rparr>"

definition jane_eyre :: Book where
  "jane_eyre = \<lparr>book_id = 3, isbn = ''789'', title = ''Jane Eyre'',
            publication_year = Integer 1847, author_id = Integer 2, image_url = Some ''''\<rparr>"

definition beowulf :: Book where
  "beowulf = \<lparr>book_id = 4, isbn = ''000'', title = ''Beowulf'',
            publication_year = Null, author_id = Null, image_url = None\<rparr>"

definition library :: store where
  "library = \<lparr>authors = [austen, bronte], books = [emma, persuasion, jane_eyre]\<rparr>"

definition library_with_anonymous :: store where
  "library_with_anonymous = \<lparr>authors = [austen], books = [emma, beowulf]\<rparr>"

text \<open>
  Rousseau's book, its title in UTF-8: the capital E with acute accent is the bytes C3
  89, the small one C3 A9.
\<close>

definition rousseau :: Author where
  "rousseau = \<lparr>Author.author_id = 3, name = ''Jean-Jacques Rousseau'',
                birthdate = Some ''1712'', date_of_death = Some ''1778''\<rparr>"

definition emile :: Book where
  "emile = \<lparr>book_id = 5, isbn = ''321'', title = CHR 0xC3 # CHR 0x89 # ''mile'',
             publication_year = Integer 1762, author_id = Integer 3, image_url = Some ''''\<rparr>"

definition library_with_emile :: store where
  "library_with_emile = \<lparr>authors = [rousseau], books = [emile]\<rparr>"

definition emma_form :: "(string \<times> string) list" where
  "emma_form = [(''title'', ''Emma''), (''isbn'', ''123''),
                (''publication_year'', ''1815''), (''author_id'', ''1'')]"

definition austen_form :: "(string \<times> string) list" where
  "austen_form = [(''name'', ''Jane Austen''), (''birthdate'', ''1775''),
                  (''date_of_death'', ''1817'')]"

text \<open>
  Stand-ins for the world outside: a service that finds no volume, one that finds Emma
  with a cover, and two that answer with a thumbnail that is not a string. The engine
  behind them reads the two numbers of the form as integers; it is never handed a bool
  or a number to bind, and the stand-in answers as for an integer out of range.
\<close>

definition example_affinity :: "string \<Rightarrow> sqlval" where
  "example_affinity s =
     (if s = ''1'' then Integer 1 else if s = ''1815'' then Integer 1815 else Text s)"

definition no_volume :: pyval where
  "no_volume = PDict [(''kind'', PStr ''books#volumes''), (''totalItems'', PInt 0)]"


definition volume_with_thumbnail :: "pyval \<Rightarrow> pyval" where
  "volume_with_thumbnail v =
     PDict [(''kind'', PStr ''books#volumes''), (''totalItems'', PInt 1),
            (''items'', PList [PDict [(''kind'', PStr ''books#volume''),
               (''volumeInfo'', PDict [(''title'', PStr ''Emma''),
                  (''imageLinks'', PDict [(''thumbnail'', v)])])]])]"

definition no_volume_env :: environment where
  "no_volume_env =
     \<lparr>requests_get = (\<lambda>url. Json no_volume),
      integer_affinity = example_affinity,
      bind_other = (\<lambda>v. Inl OverflowError)\<rparr>"


definition list_thumbnail_env :: environment where
  "list_thumbnail_env =
     \<lparr>requests_get = (\<lambda>url. Json (volume_with_thumbnail (PList []))),
      integer_affinity = example_affinity,
      bind_other = (\<lambda>v. Inl OverflowError)\<rparr>"

definition null_thumbnail_env :: environment where
  "null_thumbnail_env =
     \<lparr>requests_get = (\<lambda>url. Json (volume_with_thumbnail PNone)),
      integer_affinity = example_affinity,
      bind_other = (\<lambda>v. Inl OverflowError)\<rparr>"

section \<open>Facts about the store\<close>

lemma next_id_fresh: "i \<in> set ids \<Longrightarrow> i < next_id ids"
proof (cases ids)
  case Nil
  assume "i \<in> set ids"
  with Nil show ?thesis by simp
next
  case (Cons j js)
  assume "i \<in> set ids"
  then have "i \<le> Max (set (j # js))" unfolding Cons by (intro Max_ge) auto
  also have "Max (set (j # js)) = fold max js j" by (rule Max.set_eq_fold)
  finally show ?thesis unfolding Cons by simp
qed

lemma find_append_new:
  assumes "\<forall>x \<in> set xs. \<not> P x" and "P y"
  shows "find P (xs @ [y]) = Some y"
  using assms by (induction xs) auto

lemma find_book_id: "find (\<lambda>b. book_id b = bid) bs = None \<longleftrightarrow> bid \<notin> book_id ` set bs"
  by (auto simp: find_None_iff)

subsection \<open>NOT IN over a list with and without NULL\<close>

lemma sql_in_null: "Null \<in> set vs \<Longrightarrow> sql_in x vs \<noteq> SqlFalse"
proof (induction vs)
  case Nil
  then show ?case by simp
next
  case (Cons v vs)
  show ?case
  proof (cases "v = Null")
    case True
    then show ?thesis by (cases x; cases "sql_in x vs") simp_all
  next
    case False
    with Cons have "sql_in x vs \<noteq> SqlFalse" by simp
    then show ?thesis by (cases "sql_eq x v"; cases "sql_in x vs") simp_all
  qed
qed

lemma sql_in_no_null:
  "Null \<notin> set vs \<Longrightarrow>
   sql_in (Integer i) vs = (if Integer i \<in> set vs then SqlTrue else SqlFalse)"
proof (induction vs)
  case Nil
  then show ?case by simp
next
  case (Cons v vs)
  then show ?case by (cases v) auto
qed

lemma sql_in_member: "Integer i \<in> set vs \<Longrightarrow> sql_in (Integer i) vs = SqlTrue"
proof (induction vs)
  case Nil
  then show ?case by simp
next
  case (Cons v vs)
  then show ?case by (cases "v = Integer i"; cases "sql_eq (Integer i) v") auto
qed

lemma sql_eq_true_iff: "sql_eq v (Integer i) = SqlTrue \<longleftrightarrow> v = Integer i"
  by (cases v) auto

section \<open>delete\<close>

text \<open>What \<open>delete\<close> does when the book is there: the row goes, then the sweep runs.\<close>

lemma delete_existing:
  assumes "bid \<in> book_id ` set (books st)"
  shows "delete bid st =
    (Redirect ''/'',
     \<lparr>authors = filter (\<lambda>a. sql_not (sql_in (Integer (Author.author_id a))
            (remdups (map Book.author_id (filter (\<lambda>b. book_id b \<noteq> bid) (books st)))))
              \<noteq> SqlTrue) (authors st),
      books = filter (\<lambda>b. book_id b \<noteq> bid) (books st)\<rparr>)"
proof -
  from assms obtain b where "find (\<lambda>b. book_id b = bid) (books st) = Some b"
    using find_book_id [of bid "books st"]
    by (cases "find (\<lambda>b. book_id b = bid) (books st)") auto
  then show ?thesis by (simp add: delete_def Let_def)
qed

text \<open>
  When no remaining book has a NULL author reference, the sweep leaves exactly the
  authors that a remaining book references.
\<close>

lemma delete_sweep:
  assumes "bid \<in> book_id ` set (books st)"
    and "\<forall>b \<in> set (books (snd (delete bid st))). Book.author_id b \<noteq> Null"
  shows "set (authors (snd (delete bid st))) =
     {a \<in> set (authors st). \<exists>b \<in> set (books (snd (delete bid st))). spec_references b a}"
proof -
  let ?bs = "filter (\<lambda>b. book_id b \<noteq> bid) (books st)"
  let ?ids = "remdups (map Book.author_id ?bs)"
  have bs: "books (snd (delete bid st)) = ?bs" by (simp add: delete_existing [OF assms(1)])
  have "Null \<notin> set ?ids" using assms(2) unfolding bs by force
  then have "sql_not (sql_in (Integer i) ?ids) \<noteq> SqlTrue \<longleftrightarrow> Integer i \<in> set ?ids" for i
    by (simp add: sql_in_no_null)
  then have keep:
    "set (filter (\<lambda>a. sql_not (sql_in (Integer (Author.author_id a)) ?ids) \<noteq> SqlTrue) (authors st))
      = {a \<in> set (authors st). Integer (Author.author_id a) \<in> Book.author_id ` set ?bs}"
    by simp
  have "(Integer (Author.author_id a) \<in> Book.author_id ` set ?bs)
      = (\<exists>b \<in> set ?bs. spec_references b a)" for a
    unfolding spec_references_def
    by (rule iffI) (erule imageE, metis, erule bexE, metis image_eqI)
  with keep show ?thesis
    unfolding bs by (simp add: delete_existing [OF assms(1)])
qed

text \<open>An author that a remaining book references is never swept.\<close>

lemma delete_keeps_referenced:
  assumes "bid \<in> book_id ` set (books st)"
    and "a \<in> set (authors st)"
    and "b \<in> set (books st)" and "book_id b \<noteq> bid" and "spec_references b a"
  shows "a \<in> set (authors (snd (delete bid st)))"
proof -
  let ?ids = "remdups (map Book.author_id (filter (\<lambda>b. book_id b \<noteq> bid) (books st)))"
  have "Integer (Author.author_id a) \<in> set ?ids"
    using assms(3-5) unfolding spec_references_def by force
  then have "sql_in (Integer (Author.author_id a)) ?ids = SqlTrue" by (rule sql_in_member)
  with assms(2) show ?thesis by (simp add: delete_existing [OF assms(1)])
qed

text \<open>
  Claim C1: after a successful delete an author remains in the store if and only if a
  remaining book references it. The code does otherwise as soon as a remaining book has
  no author: deleting Emma from a library that also holds the anonymous Beowulf leaves
  Jane Austen in the store, although Beowulf, the only book left, does not reference
  her. (When no remaining book has a NULL reference the claim holds: \<open>delete_sweep\<close>.)
\<close>

theorem delete_leaves_orphan_author:
  "delete 1 library_with_anonymous =
     (Redirect ''/'', \<lparr>authors = [austen], books = [beowulf]\<rparr>)
   \<and> \<not> spec_references beowulf austen"
  by code_simp

text \<open>
  An id of the 64-bit range that no book has: Not Found, and the store as it was.
\<close>

lemma delete_missing_in_range:
  assumes "bid \<notin> book_id ` set (books st)" and "in_int64 bid"
  shows "delete bid st = (NotFound bid, st)"
  using assms find_book_id [of bid "books st"] by (simp add: delete_def)

lemma delete_missing_out_of_range:
  assumes "bid \<notin> book_id ` set (books st)" and "\<not> in_int64 bid"
  shows "delete bid st = (ServerError OverflowError, st)"
  using assms find_book_id [of bid "books st"] by (simp add: delete_def)

text \<open>
  Claim C3: every delete of a book id that no book has answers Not Found instead of
  crashing, and leaves the store as it was. The code does otherwise for an id beyond
  the 64-bit range, which the route accepts: for 9223372036854775808, two to the power
  63, the lookup raises before any row is read, and the request ends in a server error
  and not in Not Found. The store is untouched, and within the range the claim holds
  (\<open>delete_missing_in_range\<close>).
\<close>

theorem delete_missing_overflow:
  "9223372036854775808 \<notin> book_id ` set (books library)
   \<and> delete 9223372036854775808 library = (ServerError OverflowError, library)"
  by code_simp

text \<open>
  Claim C9: when, after the book is removed, some remaining book has a NULL author
  reference, the sweep removes no author at all.
\<close>

theorem delete_null_reference_keeps_authors:
  assumes "bid \<in> book_id ` set (books st)"
    and "b \<in> set (books st)" and "book_id b \<noteq> bid" and "Book.author_id b = Null"
  shows "authors (snd (delete bid st)) = authors st"
proof -
  let ?ids = "remdups (map Book.author_id (filter (\<lambda>b. book_id b \<noteq> bid) (books st)))"
  have "Null \<in> set ?ids" using assms(2-4) by force
  then have "sql_not (sql_in x ?ids) \<noteq> SqlTrue" for x
    using sql_in_null [of ?ids x] by (cases "sql_in x ?ids") simp_all
  then show ?thesis by (simp add: delete_existing [OF assms(1)])
qed

text \<open>Beowulf stays when Emma is deleted, and so does Jane Austen.\<close>

theorem delete_null_reference_witness:
  "1 \<in> book_id ` set (books library_with_anonymous)
   \<and> beowulf \<in> set (books library_with_anonymous)
   \<and> book_id beowulf \<noteq> 1 \<and> Book.author_id beowulf = Null
   \<and> authors (snd (delete 1 library_with_anonymous)) = [austen]"
proof -
  have h1: "1 \<in> book_id ` set (books library_with_anonymous)" by code_simp
  have h2: "beowulf \<in> set (books library_with_anonymous)" by code_simp
  have h3: "book_id beowulf \<noteq> 1" by code_simp
  have h4: "Book.author_id beowulf = Null" by code_simp
  have a: "authors library_with_anonymous = [austen]" by code_simp
  show ?thesis
    using delete_null_reference_keeps_authors [OF h1 h2 h3 h4] h1 h2 h3 h4 a by simp
qed

text \<open>
  Claim C10: deleting an existing book removes the rows with that id from the books
  table and nothing else there; every other book stays, in place and with its fields
  as they were.
\<close>

theorem delete_frame:
  assumes "bid \<in> book_id ` set (books st)"
  shows "books (snd (delete bid st)) = filter (\<lambda>b. book_id b \<noteq> bid) (books st)"
  by (simp add: delete_existing [OF assms])

text \<open>Deleting Emma from the library leaves the two other books.\<close>

theorem delete_frame_witness:
  "1 \<in> book_id ` set (books library)
   \<and> books (snd (delete 1 library)) = [persuasion, jane_eyre]"
proof -
  have h: "1 \<in> book_id ` set (books library)" by code_simp
  have r: "filter (\<lambda>b. book_id b \<noteq> 1) (books library) = [persuasion, jane_eyre]"
    by code_simp
  show ?thesis using delete_frame [OF h] h r by simp
qed

section \<open>add_author\<close>

text \<open>
  Claim C8: an author created from the fields (name, birthdate, date_of_death) and read
  back at once, by the key the new row was given, has exactly the submitted values.
\<close>

theorem add_author_roundtrip:
  assumes "map_of form ''name'' = Some n"
    and "map_of form ''birthdate'' = Some b"
    and "map_of form ''date_of_death'' = Some d"
  shows "fst (add_author (POST form) st) = Message ''New author successfully added to database''
       \<and> find (\<lambda>a. Author.author_id a = next_id (map Author.author_id (authors st)))
              (authors (snd (add_author (POST form) st)))
         = Some \<lparr>Author.author_id = next_id (map Author.author_id (authors st)),
                 name = n, birthdate = Some b, date_of_death = Some d\<rparr>"
proof -
  let ?i = "next_id (map Author.author_id (authors st))"
  have "\<forall>a \<in> set (authors st). Author.author_id a \<noteq> ?i"
    using next_id_fresh [of _ "map Author.author_id (authors st)"] by fastforce
  then show ?thesis
    using assms by (simp add: add_author_def Let_def find_append_new)
qed

text \<open>Jane Austen, added to a store with no author, is author 1.\<close>

theorem add_author_roundtrip_witness:
  "map_of austen_form ''name'' = Some ''Jane Austen''
   \<and> map_of austen_form ''birthdate'' = Some ''1775''
   \<and> map_of austen_form ''date_of_death'' = Some ''1817''
   \<and> find (\<lambda>a. Author.author_id a = 1)
        (authors (snd (add_author (POST austen_form) \<lparr>authors = [], books = []\<rparr>)))
      = Some austen"
proof -
  have h1: "map_of austen_form ''name'' = Some ''Jane Austen''" by code_simp
  have h2: "map_of austen_form ''birthdate'' = Some ''1775''" by code_simp
  have h3: "map_of austen_form ''date_of_death'' = Some ''1817''" by code_simp
  show ?thesis
    using add_author_roundtrip [OF h1 h2 h3, of "\<lparr>authors = [], books = []\<rparr>"] h1 h2 h3
    by (simp add: austen_def)
qed

section \<open>fetch_book_image and add_book\<close>

text \<open>
  On a parsed body the function returns the thumbnail the specification describes, and
  the empty string when there is none: every exception of the walk through the body is
  a missing or ill-typed step of that path.
\<close>

lemma fetch_book_image_spec:
  assumes "get (volumes_url t i) = Json data"
  shows "fetch_book_image get t i =
     (case spec_thumbnail data of None \<Rightarrow> PStr '''' | Some v \<Rightarrow> v)"
proof (cases data)
  case (PDict kvs)
  show ?thesis
  proof (cases "map_of kvs ''items''")
    case None
    with PDict assms show ?thesis
      by (simp add: fetch_book_image_def fetch_try_def spec_thumbnail_def)
  next
    case (Some items)
    show ?thesis
    proof (cases "spec_first items")
      case None
      then have "py_getitem0 items = Inl IndexError \<or> py_getitem0 items = Inl KeyError
          \<or> py_getitem0 items = Inl TypeError \<or> (\<exists>s. py_getitem0 items = Inr (PStr s))"
        by (cases items) (auto split: list.splits)
      with None Some PDict assms show ?thesis
        by (auto simp: fetch_book_image_def fetch_try_def spec_thumbnail_def)
    next
      case item: (Some item)
      then have first: "py_getitem0 items = Inr item"
        by (cases items) (auto split: list.splits elim: spec_first.elims)
      show ?thesis
      proof (cases "spec_field item ''volumeInfo''")
        case None
        then have "\<exists>e. py_getitem item ''volumeInfo'' = Inl e"
          by (cases item) auto
        with None item first Some PDict assms show ?thesis
          by (auto simp: fetch_book_image_def fetch_try_def spec_thumbnail_def)
      next
        case vi: (Some volume_info)
        then have get_vi: "py_getitem item ''volumeInfo'' = Inr volume_info"
          by (cases item) auto
        show ?thesis
        proof (cases volume_info)
          case vd: (PDict vkvs)
          show ?thesis
          proof (cases "map_of vkvs ''imageLinks''")
            case None
            with vd vi get_vi item first Some PDict assms show ?thesis
              by (simp add: fetch_book_image_def fetch_try_def spec_thumbnail_def)
          next
            case il: (Some image_links)
            show ?thesis
            proof (cases image_links)
              case (PDict ikvs)
              with il vd vi get_vi item first Some \<open>data = PDict kvs\<close> assms show ?thesis
                by (simp add: fetch_book_image_def fetch_try_def spec_thumbnail_def
                    split: option.splits)
            qed (use il vd vi get_vi item first Some PDict assms in
                 \<open>simp_all add: fetch_book_image_def fetch_try_def spec_thumbnail_def\<close>)
          qed
        qed (use vi get_vi item first Some PDict assms in
             \<open>simp_all add: fetch_book_image_def fetch_try_def spec_thumbnail_def\<close>)
      qed
    qed
  qed
next
  case (PList xs)
  with assms show ?thesis
    by (simp add: fetch_book_image_def fetch_try_def spec_thumbnail_def split: bool.splits)
next
  case (PStr s)
  with assms show ?thesis
    by (simp add: fetch_book_image_def fetch_try_def spec_thumbnail_def split: bool.splits)
qed (use assms in \<open>simp_all add: fetch_book_image_def fetch_try_def spec_thumbnail_def\<close>)

lemma fetch_book_image_failed:
  assumes "no_thumbnail (get (volumes_url t i))"
  shows "fetch_book_image get t i = PStr ''''"
proof (cases "get (volumes_url t i)")
  case RequestFailed
  then show ?thesis by (simp add: fetch_book_image_def fetch_try_def)
next
  case NotJson
  then show ?thesis by (simp add: fetch_book_image_def fetch_try_def)
next
  case (Json data)
  with assms show ?thesis by (simp add: fetch_book_image_spec)
qed

text \<open>A complete form and a lookup that returned a string: the book is appended.\<close>

lemma add_book_created:
  assumes "map_of form ''title'' = Some t"
    and "map_of form ''isbn'' = Some i"
    and "map_of form ''publication_year'' = Some y"
    and "map_of form ''author_id'' = Some a"
    and "fetch_book_image (requests_get env) t i = PStr s"
  shows "add_book env (POST form) st =
     (Message ''New book successfully added to database'',
      st\<lparr>books := books st @
         [\<lparr>book_id = next_id (map book_id (books st)), isbn = i, title = t,
           publication_year = integer_affinity env y, author_id = integer_affinity env a,
           image_url = Some s\<rparr>]\<rparr>)"
  using assms by (simp add: add_book_def bind_text_def)

text \<open>
  A request that raises, a body that is not JSON and a body without a thumbnail are
  recovered: the lookup yields the empty string and the book is created with it.
\<close>

lemma add_book_lookup_recovered:
  assumes "map_of form ''title'' = Some t"
    and "map_of form ''isbn'' = Some i"
    and "map_of form ''publication_year'' = Some y"
    and "map_of form ''author_id'' = Some a"
    and "no_thumbnail (requests_get env (volumes_url t i))"
  shows "fetch_book_image (requests_get env) t i = PStr ''''
     \<and> add_book env (POST form) st =
       (Message ''New book successfully added to database'',
        st\<lparr>books := books st @
           [\<lparr>book_id = next_id (map book_id (books st)), isbn = i, title = t,
             publication_year = integer_affinity env y, author_id = integer_affinity env a,
             image_url = Some ''''\<rparr>]\<rparr>)"
proof -
  have empty: "fetch_book_image (requests_get env) t i = PStr ''''"
    using assms(5) by (rule fetch_book_image_failed [of "requests_get env" t i])
  from empty add_book_created [OF assms(1-4) empty] show ?thesis by simp
qed

text \<open>
  A thumbnail that is there but is \<^verbatim>\<open>null\<close> is returned as \<^verbatim>\<open>None\<close>, and the book is
  stored with NULL for its image_url, not with the empty string.
\<close>

lemma add_book_null_thumbnail:
  "spec_lookup_failed (requests_get null_thumbnail_env (volumes_url ''Emma'' ''123''))
   \<and> fetch_book_image (requests_get null_thumbnail_env) ''Emma'' ''123'' = PNone
   \<and> add_book null_thumbnail_env (POST emma_form) \<lparr>authors = [austen], books = []\<rparr> =
       (Message ''New book successfully added to database'',
        \<lparr>authors = [austen], books = [emma\<lparr>image_url := None\<rparr>]\<rparr>)"
  by code_simp

text \<open>
  Claim C4: any failure of the cover-image lookup of an add-book request (network
  error, malformed response, missing fields) is recovered: the lookup yields the empty
  string, nothing is propagated, and the book is still created. The code does otherwise
  on a malformed response whose thumbnail is a list: the lookup returns the list, the
  commit cannot bind it, the request ends in a server error and no book is created.
  (What is recovered is in \<open>add_book_lookup_recovered\<close>.)
\<close>

theorem add_book_malformed_thumbnail:
  "spec_lookup_failed (requests_get list_thumbnail_env (volumes_url ''Emma'' ''123''))
   \<and> fetch_book_image (requests_get list_thumbnail_env) ''Emma'' ''123'' = PList []
   \<and> add_book list_thumbnail_env (POST emma_form) \<lparr>authors = [austen], books = []\<rparr> =
       (ServerError InterfaceError, \<lparr>authors = [austen], books = []\<rparr>)"
  by code_simp



section \<open>home: the search\<close>

text \<open>The two string tests say what they should.\<close>

lemma starts_with_iff: "starts_with s p \<longleftrightarrow> (\<exists>post. s = p @ post)"
  by (induction s p rule: starts_with.induct) auto

lemma contains_str_iff: "contains_str s sub \<longleftrightarrow> (\<exists>pre post. s = pre @ sub @ post)"
proof (induction s)
  case Nil
  then show ?case by auto
next
  case (Cons c cs)
  show ?case
  proof
    assume "contains_str (c # cs) sub"
    then consider "starts_with (c # cs) sub" | "contains_str cs sub" by auto
    then show "\<exists>pre post. c # cs = pre @ sub @ post"
    proof cases
      case 1
      then obtain post where "c # cs = [] @ sub @ post" by (auto simp: starts_with_iff)
      then show ?thesis by blast
    next
      case 2
      with Cons obtain pre post where "cs = pre @ sub @ post" by auto
      then have "c # cs = (c # pre) @ sub @ post" by simp
      then show ?thesis by blast
    qed
  next
    assume "\<exists>pre post. c # cs = pre @ sub @ post"
    then obtain pre post where eq: "c # cs = pre @ sub @ post" by auto
    show "contains_str (c # cs) sub"
    proof (cases pre)
      case Nil
      with eq have "starts_with (c # cs) sub" by (auto simp: starts_with_iff)
      then show ?thesis by simp
    next
      case (Cons d pre')
      with eq have "cs = pre' @ sub @ post" by simp
      with Cons.IH have "contains_str cs sub" by blast
      then show ?thesis by simp
    qed
  qed
qed

subsection \<open>Lower case, the wildcards and NUL\<close>

lemma sql_lower_idem: "sql_lower (sql_lower c) = sql_lower c"
proof -
  have "of_char (char_of (n + 32 :: nat)) = n + 32" if "65 \<le> n" "n \<le> 90" for n
    using that by simp
  then show ?thesis by (auto simp: sql_lower_def Let_def)
qed

lemma sql_lower_eq_code:
  assumes "n < 65 \<or> (90 < n \<and> n < 97)"
  shows "sql_lower c = char_of (n :: nat) \<longleftrightarrow> c = char_of n"
proof
  assume "sql_lower c = char_of n"
  then have "(of_char (sql_lower c) :: nat) = n mod 256" by simp
  with assms have "(of_char c :: nat) = of_char (char_of n)"
    by (auto simp: sql_lower_def Let_def split: if_splits)
  then show "c = char_of n" by (simp only: of_char_eq_iff)
next
  assume "c = char_of n"
  with assms show "sql_lower c = char_of n"
    by (auto simp: sql_lower_def Let_def)
qed

lemma sql_lower_percent: "sql_lower c = CHR ''%'' \<longleftrightarrow> c = CHR ''%''"
proof -
  have "char_of (37 :: nat) = CHR ''%''" by code_simp
  with sql_lower_eq_code [of 37 c] show ?thesis by simp
qed

lemma sql_lower_underscore: "sql_lower c = CHR ''_'' \<longleftrightarrow> c = CHR ''_''"
proof -
  have "char_of (95 :: nat) = CHR ''_''" by code_simp
  with sql_lower_eq_code [of 95 c] show ?thesis by simp
qed

lemma sql_lower_nul: "sql_lower c = CHR 0x00 \<longleftrightarrow> c = CHR 0x00"
proof -
  have "char_of (0 :: nat) = CHR 0x00" by code_simp
  with sql_lower_eq_code [of 0 c] show ?thesis by simp
qed

lemma sql_lower_ascii: "(of_char (sql_lower c) :: nat) < 128 \<longleftrightarrow> (of_char c :: nat) < 128"
  by (auto simp: sql_lower_def Let_def)

lemma c_string_plain: "CHR 0x00 \<notin> set s \<Longrightarrow> c_string s = s"
  by (auto simp: c_string_def takeWhile_eq_all_conv)

lemma ascii_text_Cons:
  "ascii_text (c # cs) \<longleftrightarrow> c \<noteq> CHR 0x00 \<and> (of_char c :: nat) < 128 \<and> ascii_text cs"
  by (simp add: ascii_text_def)

lemma utf8_rest_ascii: "(of_char c :: nat) < 128 \<Longrightarrow> utf8_rest c cs = cs"
  by (simp add: utf8_rest_def)

subsection \<open>A plain term between two percent signs, on an ASCII text\<close>

lemma like_percent:
  assumes "list_all (\<lambda>c. (of_char c :: nat) < 128) s"
  shows "like [CHR ''%''] s"
  using assms by (induction s) (auto simp: utf8_rest_ascii)

lemma like_prefix:
  assumes "CHR ''%'' \<notin> set q" and "CHR ''_'' \<notin> set q"
    and "list_all (\<lambda>c. (of_char c :: nat) < 128) s"
  shows "like (q @ [CHR ''%'']) s = starts_with (map sql_lower s) (map sql_lower q)"
  using assms
proof (induction q arbitrary: s)
  case Nil
  then show ?case by (simp add: like_percent)
next
  case (Cons p q)
  then show ?case by (cases s) auto
qed

lemma like_infix:
  assumes "CHR ''%'' \<notin> set q" and "CHR ''_'' \<notin> set q"
    and "list_all (\<lambda>c. (of_char c :: nat) < 128) s"
  shows "like (CHR ''%'' # q @ [CHR ''%'']) s
     = contains_str (map sql_lower s) (map sql_lower q)"
  using assms(3)
proof (induction s)
  case Nil
  have "like (q @ [CHR ''%'']) [] = (q = [])" by (cases q) (use assms in auto)
  then show ?case by simp
next
  case (Cons c cs)
  then show ?case
    using like_prefix [OF assms(1,2), of "c # cs"] by (simp add: utf8_rest_ascii)
qed

lemma ilike_contains:
  assumes "plain_term term'" and "ascii_text t"
  shows "ilike t (CHR ''%'' # term' @ [CHR ''%''])
     = contains_str (map sql_lower t) (map sql_lower term')"
proof -
  let ?q = "map sql_lower term'"
  let ?s = "map sql_lower t"
  have "c \<in> set ?q \<Longrightarrow> \<exists>x \<in> set term'. sql_lower x = c" for c by auto
  with assms(1) have q: "CHR ''%'' \<notin> set ?q" "CHR ''_'' \<notin> set ?q" "CHR 0x00 \<notin> set ?q"
    unfolding plain_term_def
    by (metis sql_lower_percent, metis sql_lower_underscore, metis sql_lower_nul)
  have "c \<in> set ?s \<Longrightarrow> \<exists>x \<in> set t. sql_lower x = c" for c by auto
  with assms(2) have s0: "CHR 0x00 \<notin> set ?s"
    unfolding ascii_text_def list_all_iff by (metis sql_lower_nul)
  from assms(2) have s1: "list_all (\<lambda>c. (of_char c :: nat) < 128) ?s"
    unfolding ascii_text_def list_all_iff by (simp add: sql_lower_ascii)
  have lower_percent: "sql_lower CHR ''%'' = CHR ''%''" by (simp add: sql_lower_percent)
  have "CHR 0x00 \<notin> set (CHR ''%'' # ?q @ [CHR ''%''])" using q(3) by simp
  then have pattern: "c_string (CHR ''%'' # ?q @ [CHR ''%'']) = CHR ''%'' # ?q @ [CHR ''%'']"
    by (rule c_string_plain)
  have title: "c_string ?s = ?s" using s0 by (rule c_string_plain)
  have "like (CHR ''%'' # ?q @ [CHR ''%'']) ?s = contains_str (map sql_lower ?s) (map sql_lower ?q)"
    using q(1,2) s1 by (rule like_infix)
  then have "like (CHR ''%'' # ?q @ [CHR ''%'']) ?s = contains_str ?s ?q"
    by (simp add: sql_lower_idem comp_def)
  with pattern title lower_percent show ?thesis
    by (simp add: ilike_def)
qed

text \<open>A term of at most 49998 bytes: the pattern is within the bound.\<close>

lemma home_search_short_term:
  assumes "map_of form ''search'' = Some term'" and "length term' \<le> 49998"
  shows "home (POST form) st =
     (let found = filter (\<lambda>b. ilike (title b) (CHR ''%'' # term' @ [CHR ''%''])) (books st)
      in if found = [] then Message ''No books found'' else Home found, st)"
  using assms by (simp add: home_def Let_def)

text \<open>
  What the search does in general on a library of ASCII titles, for a plain term of at
  most 49998 bytes: it returns the books whose title contains the term, the ASCII
  letters in either case, and "No books found" when there is none.
\<close>

lemma home_search_plain:
  assumes "map_of form ''search'' = Some term'"
    and "plain_term term'" and "length term' \<le> 49998"
    and "list_all (\<lambda>b. ascii_text (title b)) (books st)"
  shows "home (POST form) st =
     (let found = filter (\<lambda>b. contains_str (map sql_lower (title b)) (map sql_lower term'))
                         (books st)
      in if found = [] then Message ''No books found'' else Home found, st)"
proof -
  have "filter (\<lambda>b. ilike (title b) (CHR ''%'' # term' @ [CHR ''%''])) (books st)
      = filter (\<lambda>b. contains_str (map sql_lower (title b)) (map sql_lower term')) (books st)"
    using assms(4) unfolding list_all_iff
    by (intro filter_cong refl) (simp add: ilike_contains [OF assms(2)])
  with home_search_short_term [OF assms(1,3), of st] show ?thesis
    by simp
qed

text \<open>A pattern of more than 50000 bytes on a table with a row: a server error.\<close>

lemma home_search_long_term:
  assumes "map_of form ''search'' = Some term'"
    and "49998 < length term'" and "books st \<noteq> []"
  shows "home (POST form) st = (ServerError OperationalError, st)"
  using assms by (simp add: home_def Let_def)

text \<open>
  The letters beyond ASCII are not folded: the search for the small e with acute accent
  does not find the title that begins with the capital one.
\<close>

lemma home_search_accent:
  "home (POST [(''search'', [CHR 0xC3, CHR 0xA9])]) library_with_emile
     = (Message ''No books found'', library_with_emile)"
proof -
  have "filter (\<lambda>b. ilike (title b) (CHR ''%'' # [CHR 0xC3, CHR 0xA9] @ [CHR ''%'']))
          (books library_with_emile) = []"
    by code_simp
  with home_search_short_term [of "[(''search'', [CHR 0xC3, CHR 0xA9])]" "[CHR 0xC3, CHR 0xA9]"
      library_with_emile]
  show ?thesis by simp
qed

text \<open>A term is read up to its first NUL: a term that is one NUL finds every book.\<close>

lemma home_search_nul:
  "home (POST [(''search'', [CHR 0x00])]) library
     = (Home [emma, persuasion, jane_eyre], library)"
proof -
  have "filter (\<lambda>b. ilike (title b) (CHR ''%'' # [CHR 0x00] @ [CHR ''%''])) (books library)
      = [emma, persuasion, jane_eyre]"
    by code_simp
  with home_search_short_term [of "[(''search'', [CHR 0x00])]" "[CHR 0x00]" library]
  show ?thesis by simp
qed

text \<open>
  Claim C6: for every search term, the search returns exactly the books whose title
  contains the term as a case-insensitive substring, and the no-results state when no
  title contains it. The code does otherwise as soon as the term holds a character that
  LIKE reads as a wildcard: no title of the library contains an underscore, and the
  search for an underscore returns every book, where the claim has "No books found".
\<close>

theorem home_search_wildcard:
  "home (POST [(''search'', ''_'')]) library = (Home [emma, persuasion, jane_eyre], library)
   \<and> \<not> contains_str (map sql_lower (title emma)) (map sql_lower ''_'')
   \<and> \<not> contains_str (map sql_lower (title persuasion)) (map sql_lower ''_'')
   \<and> \<not> contains_str (map sql_lower (title jane_eyre)) (map sql_lower ''_'')"
proof -
  have found: "filter (\<lambda>b. ilike (title b) (CHR ''%'' # ''_'' @ [CHR ''%''])) (books library)
      = [emma, persuasion, jane_eyre]"
    by code_simp
  have no_title:
    "\<not> contains_str (map sql_lower (title emma)) (map sql_lower ''_'')"
    "\<not> contains_str (map sql_lower (title persuasion)) (map sql_lower ''_'')"
    "\<not> contains_str (map sql_lower (title jane_eyre)) (map sql_lower ''_'')"
    by code_simp+
  from home_search_short_term [of "[(''search'', ''_'')]" "''_''" library] found no_title
  show ?thesis by simp
qed

section \<open>sort_by_title and sort_by_author\<close>

text \<open>The order of the titles: byte by byte, a proper prefix first.\<close>

lemma title_order:
  "(s :: string) < t \<longleftrightarrow> (s, t) \<in> lexord {(c, d). (of_char c :: nat) < of_char d}"
  by (simp add: list_less_def less_char_def)

text \<open>
  Claim C7: for every store, sort_by_title returns all the books, each as often as the
  table holds it, in a sequence whose titles never decrease in lexicographic order.
\<close>

theorem sort_by_title_sorted:
  "\<exists>bs. sort_by_title st = (Home bs, st)
     \<and> mset bs = mset (books st) \<and> sorted (map title bs)"
  by (simp add: sort_by_title_def)

text \<open>The library by title: Emma, Jane Eyre, Persuasion.\<close>

theorem sort_by_title_sorted_witness:
  "sort_by_title library = (Home [emma, jane_eyre, persuasion], library)
   \<and> sorted (map title [emma, jane_eyre, persuasion])"
proof -
  have r: "sort_by_title library = (Home [emma, jane_eyre, persuasion], library)"
    by code_simp
  from sort_by_title_sorted [of library] r show ?thesis by simp
qed

subsection \<open>The join\<close>

lemma join_author_Nil: "join_author [] as = []"
  by (simp add: join_author_def)

lemma join_author_Cons:
  "join_author (b # bs) as = map (Pair b) (filter (spec_references b) as) @ join_author bs as"
  by (simp add: join_author_def sql_eq_true_iff spec_references_def [abs_def])

lemma set_join_author:
  "set (join_author bs as) = {(b, a). b \<in> set bs \<and> a \<in> set as \<and> spec_references b a}"
  by (induction bs) (auto simp: join_author_Nil join_author_Cons)

lemma unique_author:
  assumes "distinct (map Author.author_id as)"
  shows "length (filter (spec_references b) as)
     = (if \<exists>a \<in> set as. spec_references b a then 1 else 0)"
  using assms
proof (induction as)
  case Nil
  then show ?case by simp
next
  case (Cons a as)
  show ?case
  proof (cases "spec_references b a")
    case True
    with Cons.prems have "\<forall>a' \<in> set as. \<not> spec_references b a'"
      by (auto simp: spec_references_def)
    then have "filter (spec_references b) as = []" by (simp add: filter_empty_conv)
    with True show ?thesis by simp
  next
    case False
    with Cons show ?thesis by simp
  qed
qed

lemma mset_join_author:
  assumes "distinct (map Author.author_id as)"
  shows "mset (map fst (join_author bs as)) =
     mset (filter (\<lambda>b. \<exists>a \<in> set as. spec_references b a) bs)"
proof (induction bs)
  case Nil
  then show ?case by (simp add: join_author_Nil)
next
  case (Cons b bs)
  have "map fst (map (Pair b) (filter (spec_references b) as))
      = replicate (length (filter (spec_references b) as)) b"
    by (simp add: comp_def map_replicate_const)
  with Cons show ?case
    by (simp add: join_author_Cons unique_author [OF assms])
qed

text \<open>
  What sort_by_author returns: the books of the joined rows, the rows in the order of
  their authors' names; with author keys distinct, these are the books that reference
  an author of the store, each once.
\<close>

lemma sort_by_author_result:
  "\<exists>rows. sort_by_author st = (Home (map fst rows), st)
     \<and> sorted (map (\<lambda>r. name (snd r)) rows)
     \<and> set rows = {(b, a). b \<in> set (books st) \<and> a \<in> set (authors st) \<and> spec_references b a}
     \<and> (distinct (map Author.author_id (authors st)) \<longrightarrow>
          mset (map fst rows) =
          mset (filter (\<lambda>b. \<exists>a \<in> set (authors st). spec_references b a) (books st)))"
proof -
  let ?rows = "sort_key (\<lambda>r. name (snd r)) (join_author (books st) (authors st))"
  have "mset (map fst ?rows) = mset (map fst (join_author (books st) (authors st)))"
    by (metis mset_map mset_sort)
  then have "distinct (map Author.author_id (authors st)) \<longrightarrow>
      mset (map fst ?rows) =
      mset (filter (\<lambda>b. \<exists>a \<in> set (authors st). spec_references b a) (books st))"
    using mset_join_author [of "authors st" "books st"] by (simp only:) blast
  moreover have "sort_by_author st = (Home (map fst ?rows), st)"
    by (simp add: sort_by_author_def)
  moreover have "sorted (map (\<lambda>r. name (snd r)) ?rows)" by simp
  moreover have "set ?rows =
      {(b, a). b \<in> set (books st) \<and> a \<in> set (authors st) \<and> spec_references b a}"
    by (simp add: set_join_author)
  ultimately show ?thesis by blast
qed

text \<open>
  Claim C2: for every store, sort_by_author returns all the books, each exactly once,
  in the order of their authors' names. The code does otherwise as soon as a book has
  no author row to join: of the two books of the library with the anonymous Beowulf,
  only Emma is returned. (\<open>sort_by_author_result\<close> says what is returned in general.)
\<close>

theorem sort_by_author_drops_book:
  "fst (sort_by_author library_with_anonymous) = Home [emma]
   \<and> books library_with_anonymous = [emma, beowulf]"
  by code_simp

end
